theory Spec2Isabelle
  imports Main "HOL-Library.Word"
begin

section \<open>The NewUpload component of codalab-worksheets\<close>

text \<open>
  A shallow embedding of
  \<^verbatim>\<open>frontend/src/components/worksheets/NewUpload/NewUpload.jsx\<close>: the component
  state with React's merging \<^verbatim>\<open>setState\<close>, the tag list handlers, the query
  parameters of the content upload, and the two-request upload flow with its nested
  callbacks.
\<close>

subsection \<open>JavaScript values and arrays\<close>

text \<open>
  The values that reach \<^verbatim>\<open>createAlertText\<close>: a string or \<^verbatim>\<open>undefined\<close>.
  \<open>Other\<close> stands for every value that is neither (functions, arrays, nested objects);
  no handler inspects one.
\<close>

datatype js_value = Undefined | Str string | Other

text \<open>
  An object is its list of properties. Reading a property that the object does not have
  yields \<^verbatim>\<open>undefined\<close>; it does not throw.
\<close>

type_synonym js_object = "(string \<times> js_value) list"

definition get_property :: "js_object \<Rightarrow> string \<Rightarrow> js_value" where
  "get_property obj k = (case map_of obj k of None \<Rightarrow> Undefined | Some v \<Rightarrow> v)"

text \<open>
  \<^verbatim>\<open>Array.prototype.slice(start, end)\<close>: a negative index counts from the end,
  both indices are clamped to the array, and an omitted \<^verbatim>\<open>end\<close> is the length.
\<close>

definition relative_index :: "int \<Rightarrow> int \<Rightarrow> int" where
  "relative_index len i = (if i < 0 then max (len + i) 0 else min i len)"

definition slice :: "'a list \<Rightarrow> int \<Rightarrow> int option \<Rightarrow> 'a list" where
  "slice xs start end =
     (let len = int (length xs);
          k = relative_index len start;
          final = (case end of None \<Rightarrow> len | Some e \<Rightarrow> relative_index len e)
      in take (nat (final - k)) (drop (nat k) xs))"

subsection \<open>Component state\<close>

text \<open>
  The state declared at lines 69-77. The constructor (lines 89-94) copies
  \<^verbatim>\<open>defaultConfig\<close>, which has no \<^verbatim>\<open>url\<close>, so \<open>url\<close> is \<open>None\<close>
  (the property is absent) until the URL input sets it.
\<close>

record state =
  url :: "string option"
  name :: string
  description :: string
  tags :: "string list"

text \<open>
  The argument of \<^verbatim>\<open>setState\<close> is an object with some of the state's keys;
  \<open>None\<close> is a key that the object does not have.
\<close>

record partial_state =
  set_url :: "string option"
  set_name :: "string option"
  set_description :: "string option"
  set_tags :: "string list option"

definition no_change :: partial_state where
  "no_change = \<lparr>set_url = None, set_name = None, set_description = None, set_tags = None\<rparr>"

text \<open>React's \<^verbatim>\<open>setState\<close> merges the keys that are present and keeps the others.\<close>

definition setState :: "partial_state \<Rightarrow> state \<Rightarrow> state" where
  "setState p s =
     \<lparr>url = (case set_url p of None \<Rightarrow> url s | Some v \<Rightarrow> Some v),
      name = (case set_name p of None \<Rightarrow> name s | Some v \<Rightarrow> v),
      description = (case set_description p of None \<Rightarrow> description s | Some v \<Rightarrow> v),
      tags = (case set_tags p of None \<Rightarrow> tags s | Some v \<Rightarrow> v)\<rparr>"

text \<open>Lines 79-83.\<close>

definition defaultConfig :: partial_state where
  "defaultConfig =
     no_change\<lparr>set_name := Some ''untitled-upload'',
               set_description := Some '''',
               set_tags := Some []\<rparr>"

text \<open>The constructor's \<^verbatim>\<open>this.state = {...this.defaultConfig}\<close>.\<close>

definition initial_state :: state where
  "initial_state =
     \<lparr>url = set_url defaultConfig,
      name = the (set_name defaultConfig),
      description = the (set_description defaultConfig),
      tags = the (set_tags defaultConfig)\<rparr>"

text \<open>The Clear button, line 233.\<close>

definition clear_onClick :: "state \<Rightarrow> state" where
  "clear_onClick s = setState defaultConfig s"

text \<open>The text inputs, lines 254, 265 and 347.\<close>

definition name_onValueChange :: "string \<Rightarrow> state \<Rightarrow> state" where
  "name_onValueChange v s = setState (no_change\<lparr>set_name := Some v\<rparr>) s"

definition description_onValueChange :: "string \<Rightarrow> state \<Rightarrow> state" where
  "description_onValueChange v s = setState (no_change\<lparr>set_description := Some v\<rparr>) s"

definition url_onValueChange :: "string \<Rightarrow> state \<Rightarrow> state" where
  "url_onValueChange v s = setState (no_change\<lparr>set_url := Some v\<rparr>) s"

text \<open>
  The tag chips, lines 278-283. Both handlers pass \<^verbatim>\<open>setState\<close> an updater, which
  computes the new keys from the state it is given.
\<close>

definition onValueAdd :: "string \<Rightarrow> state \<Rightarrow> state" where
  "onValueAdd v s = setState (no_change\<lparr>set_tags := Some (tags s @ [v])\<rparr>) s"

definition onValueDelete :: "string \<Rightarrow> int \<Rightarrow> state \<Rightarrow> state" where
  "onValueDelete v idx s =
     setState (no_change\<lparr>set_tags :=
       Some (slice (tags s) 0 (Some idx) @ slice (tags s) (idx + 1) None)\<rparr>) s"

subsection \<open>Imported functions\<close>

text \<open>The object literal of \<^verbatim>\<open>getQueryParams\<close>, lines 50-56.\<close>

record query_params =
  finalize :: nat
  filename :: string
  unpack :: nat

text \<open>
  The functions that the component imports from \<^verbatim>\<open>util/worksheet_utils\<close>
  (lines 11-18), with \<^verbatim>\<open>JSON.stringify\<close> and jQuery's \<^verbatim>\<open>$.param\<close>. Their
  code is not part of the component, so every definition below takes them as the
  parameter \<open>U\<close> and every theorem holds for all of them. \<open>'m\<close> is the type of the
  bundle metadata.
\<close>

record 'm imported =
  createDefaultBundleName :: "string \<Rightarrow> string"
  pathIsArchive :: "string \<Rightarrow> bool"
  getArchiveExt :: "string \<Rightarrow> string"
  getDefaultBundleMetadata :: "string \<Rightarrow> 'm"
  createAlertText :: "js_value \<Rightarrow> string \<Rightarrow> js_value \<Rightarrow> string"
  JSON_stringify :: "'m \<Rightarrow> string"
  param :: "query_params \<Rightarrow> string"

subsection \<open>Query parameters of the content upload\<close>

text \<open>Lines 48-58: \<open>queryParams\<close> is the object, \<open>getQueryParams\<close> its serialisation.\<close>

definition queryParams :: "'m imported \<Rightarrow> string \<Rightarrow> query_params" where
  "queryParams U fname =
     (let formattedFilename = createDefaultBundleName U fname
      in \<lparr>finalize = 1,
          filename = (if pathIsArchive U fname
                      then formattedFilename @ getArchiveExt U fname
                      else formattedFilename),
          unpack = (if pathIsArchive U fname then 1 else 0)\<rparr>)"

definition getQueryParams :: "'m imported \<Rightarrow> string \<Rightarrow> string" where
  "getQueryParams U fname = param U (queryParams U fname)"

subsection \<open>Requests, effects and callbacks\<close>

text \<open>
  The props that the handlers read. The parent also supplies the callback
  \<^verbatim>\<open>reloadWorksheet\<close>; calling it is the effect \<open>ReloadWorksheet\<close> below.
\<close>

record props =
  worksheetUUID :: string
  after_sort_key :: string

record File =
  file_name :: string

type_synonym bytes = "8 word list"

datatype http_method = POST | PUT

datatype body = Text string | Blob "bytes list"

text \<open>
  The settings object passed to \<^verbatim>\<open>$.ajax\<close>; \<^verbatim>\<open>processData\<close> is true
  unless the settings say otherwise.
\<close>

record ajax_settings =
  req_url :: string
  req_type :: http_method
  req_contentType :: string
  req_data :: body
  req_processData :: bool

text \<open>What a handler does to the outside: requests, the file read, alerts, the parent's callback.\<close>

datatype effect =
    Ajax ajax_settings
  | ReadAsArrayBuffer File
  | Alert string
  | ReloadWorksheet

datatype js_error = TypeError

text \<open>
  What the browser delivers back: the outcome of the POST (the \<^verbatim>\<open>id\<close>s of the items of
  \<^verbatim>\<open>data.data\<close>, or \<^verbatim>\<open>jqXHR.responseText\<close>), the reader's \<^verbatim>\<open>result\<close>, and
  the outcome of the PUT.
\<close>

datatype event =
    PostSuccess "string list"
  | PostError string
  | ReaderLoad bytes
  | PutSuccess
  | PutError string

text \<open>
  The callbacks that the code registers, with the variables each closure captures:
  \<^verbatim>\<open>success\<close>/\<^verbatim>\<open>error\<close> of the POST (lines 140-220), \<^verbatim>\<open>reader.onload\<close>
  (lines 170-215), \<^verbatim>\<open>success\<close>/\<^verbatim>\<open>error\<close> of the PUT (lines 200-213).
\<close>

datatype callback =
    PostCallbacks File
  | ReaderOnload File string
  | PutCallbacks

datatype action = Did effect | Got event | Threw js_error

text \<open>
  The component during one upload attempt: its state, the callback that is waiting for
  the browser, and everything that has happened so far, oldest first.
\<close>

record world =
  this_state :: state
  pending :: "callback option"
  log :: "action list"

definition perform :: "effect \<Rightarrow> world \<Rightarrow> world" where
  "perform e w = w\<lparr>log := log w @ [Did e]\<rparr>"

text \<open>
  The handlers are arrow functions, so \<^verbatim>\<open>this\<close> inside them is the NewUpload
  instance: the properties of a React component and the class fields of lines 79-222,
  with the two element references set in \<^verbatim>\<open>render\<close>.
\<close>

definition this_object :: js_object where
  "this_object =
     [(''props'', Other), (''context'', Other), (''refs'', Other), (''updater'', Other),
      (''state'', Other), (''setState'', Other), (''forceUpdate'', Other),
      (''render'', Other), (''defaultConfig'', Other), (''dropFile'', Other),
      (''dropDir'', Other), (''highlight'', Other), (''unhighlight'', Other),
      (''uploadFile'', Other), (''inputFile'', Other), (''inputDir'', Other)]"

text \<open>The \<^verbatim>\<open>FileReader\<close> of line 169, after line 170 has set \<^verbatim>\<open>onload\<close>.\<close>

definition reader_object :: js_object where
  "reader_object =
     [(''readyState'', Other), (''result'', Other), (''error'', Other),
      (''onloadstart'', Other), (''onprogress'', Other), (''onload'', Other),
      (''onabort'', Other), (''onerror'', Other), (''onloadend'', Other),
      (''readAsArrayBuffer'', Other), (''readAsBinaryString'', Other),
      (''readAsText'', Other), (''readAsDataURL'', Other), (''abort'', Other),
      (''addEventListener'', Other), (''removeEventListener'', Other),
      (''dispatchEvent'', Other)]"

subsection \<open>uploadFile and its callbacks\<close>

text \<open>Lines 135-139.\<close>

definition post_settings :: "'m imported \<Rightarrow> props \<Rightarrow> File \<Rightarrow> ajax_settings" where
  "post_settings U P f =
     \<lparr>req_url = ''/rest/bundles?worksheet='' @ worksheetUUID P
                 @ ''&after_sort_key='' @ after_sort_key P,
      req_type = POST,
      req_contentType = ''application/json'',
      req_data = Text (JSON_stringify U (getDefaultBundleMetadata U (file_name f))),
      req_processData = True\<rparr>"

text \<open>Lines 173-183.\<close>

definition put_settings :: "'m imported \<Rightarrow> File \<Rightarrow> string \<Rightarrow> bytes \<Rightarrow> ajax_settings" where
  "put_settings U f bundleUuid bytesArray =
     \<lparr>req_url = ''/rest/bundles/'' @ bundleUuid @ ''/contents/blob/?''
                 @ getQueryParams U (file_name f),
      req_type = PUT,
      req_contentType = ''application/octet-stream'',
      req_data = Blob [bytesArray],
      req_processData = False\<rparr>"

text \<open>Lines 129-139: a missing file returns at once; otherwise the POST is sent.\<close>

definition uploadFile :: "'m imported \<Rightarrow> props \<Rightarrow> File option \<Rightarrow> world \<Rightarrow> world" where
  "uploadFile U P file w =
     (case file of
        None \<Rightarrow> w
      | Some f \<Rightarrow> (perform (Ajax (post_settings U P f)) w)\<lparr>pending := Some (PostCallbacks f)\<rparr>)"

text \<open>
  Lines 140-217, the POST's \<^verbatim>\<open>success\<close>: \<^verbatim>\<open>data.data[0].id\<close> throws when the array
  is empty; otherwise the reader is created, \<^verbatim>\<open>onload\<close> is set and the read starts.
\<close>

definition post_success :: "File \<Rightarrow> string list \<Rightarrow> world \<Rightarrow> js_error + world" where
  "post_success f data w =
     (case data of
        [] \<Rightarrow> Inl TypeError
      | bundleUuid # _ \<Rightarrow>
          Inr ((perform (ReadAsArrayBuffer f) w)\<lparr>pending := Some (ReaderOnload f bundleUuid)\<rparr>))"

text \<open>Lines 218-220, the POST's \<^verbatim>\<open>error\<close>.\<close>

definition post_error :: "'m imported \<Rightarrow> string \<Rightarrow> world \<Rightarrow> world" where
  "post_error U responseText w =
     perform (Alert (createAlertText U (get_property this_object ''url'')
                       responseText Undefined)) w"

text \<open>Lines 170-215, \<^verbatim>\<open>reader.onload\<close>: the PUT is sent.\<close>

definition reader_onload :: "'m imported \<Rightarrow> File \<Rightarrow> string \<Rightarrow> bytes \<Rightarrow> world \<Rightarrow> world" where
  "reader_onload U f bundleUuid result w =
     (perform (Ajax (put_settings U f bundleUuid result)) w)\<lparr>pending := Some PutCallbacks\<rparr>"

text \<open>Lines 200-203, the PUT's \<^verbatim>\<open>success\<close>.\<close>

definition put_success :: "world \<Rightarrow> world" where
  "put_success w = perform ReloadWorksheet w"

text \<open>Lines 204-213, the PUT's \<^verbatim>\<open>error\<close>.\<close>

definition put_error :: "'m imported \<Rightarrow> string \<Rightarrow> world \<Rightarrow> world" where
  "put_error U responseText w =
     perform (Alert (createAlertText U (get_property reader_object ''url'')
                       responseText (Str ''refresh and try again.''))) w"

subsection \<open>Running an upload attempt\<close>

text \<open>
  Which handler an event runs. A callback runs only for the outcome of the request it
  was registered on; \<open>None\<close> is an event that no registered callback is waiting for.
\<close>

fun dispatch :: "'m imported \<Rightarrow> callback \<Rightarrow> event \<Rightarrow> world \<Rightarrow> (js_error + world) option" where
  "dispatch U (PostCallbacks f) (PostSuccess data) w = Some (post_success f data w)"
| "dispatch U (PostCallbacks f) (PostError t) w = Some (Inr (post_error U t w))"
| "dispatch U (ReaderOnload f bundleUuid) (ReaderLoad result) w =
     Some (Inr (reader_onload U f bundleUuid result w))"
| "dispatch U PutCallbacks PutSuccess w = Some (Inr (put_success w))"
| "dispatch U PutCallbacks (PutError t) w = Some (Inr (put_error U t w))"
| "dispatch U _ _ w = None"

text \<open>
  Delivering an event: the waiting callback is used up, the event is logged and the
  handler runs; an exception that leaves the handler is logged and ends the attempt.
\<close>

definition deliver :: "'m imported \<Rightarrow> event \<Rightarrow> world \<Rightarrow> world" where
  "deliver U ev w =
     (case pending w of
        None \<Rightarrow> w
      | Some cb \<Rightarrow>
          (let w' = w\<lparr>pending := None, log := log w @ [Got ev]\<rparr>
           in case dispatch U cb ev w' of
                None \<Rightarrow> w
              | Some (Inl e) \<Rightarrow> w'\<lparr>log := log w' @ [Threw e]\<rparr>
              | Some (Inr w'') \<Rightarrow> w''))"

fun run :: "'m imported \<Rightarrow> event list \<Rightarrow> world \<Rightarrow> world" where
  "run U [] w = w"
| "run U (ev # evs) w = run U evs (deliver U ev w)"

definition start :: "state \<Rightarrow> world" where
  "start s = \<lparr>this_state = s, pending = None, log = []\<rparr>"

text \<open>One attempt: \<^verbatim>\<open>uploadFile(file)\<close> in state \<open>s\<close>, then the events \<open>evs\<close> in order.\<close>

definition upload_attempt ::
  "'m imported \<Rightarrow> props \<Rightarrow> state \<Rightarrow> File option \<Rightarrow> event list \<Rightarrow> world" where
  "upload_attempt U P s file evs = run U evs (uploadFile U P file (start s))"

text \<open>Observations on a log.\<close>

fun is_put :: "action \<Rightarrow> bool" where
  "is_put (Did (Ajax r)) = (req_type r = PUT)"
| "is_put _ = False"

fun is_alert :: "action \<Rightarrow> bool" where
  "is_alert (Did (Alert t)) = True"
| "is_alert _ = False"

subsection \<open>Stages of an attempt\<close>

text \<open>The three logs that an attempt passes through while a callback is waiting.\<close>

definition posted :: "'m imported \<Rightarrow> props \<Rightarrow> File \<Rightarrow> action list" where
  "posted U P f = [Did (Ajax (post_settings U P f))]"

definition reading :: "'m imported \<Rightarrow> props \<Rightarrow> File \<Rightarrow> string \<Rightarrow> string list \<Rightarrow> action list" where
  "reading U P f i ids = posted U P f @ [Got (PostSuccess (i # ids)), Did (ReadAsArrayBuffer f)]"

definition putting ::
  "'m imported \<Rightarrow> props \<Rightarrow> File \<Rightarrow> string \<Rightarrow> string list \<Rightarrow> bytes \<Rightarrow> action list" where
  "putting U P f i ids b =
     reading U P f i ids @ [Got (ReaderLoad b), Did (Ajax (put_settings U f i b))]"

text \<open>
  Every world that an attempt on file \<open>f\<close> from state \<open>s\<close> can be in. It is the
  invariant of \<open>deliver\<close> from which the properties of an attempt follow.
\<close>

inductive stage :: "'m imported \<Rightarrow> props \<Rightarrow> state \<Rightarrow> File \<Rightarrow> world \<Rightarrow> bool"
  for U P s f where
  MetadataRequested:
    "stage U P s f \<lparr>this_state = s, pending = Some (PostCallbacks f), log = posted U P f\<rparr>"
| MetadataFailed:
    "stage U P s f \<lparr>this_state = s, pending = None,
       log = posted U P f @ [Got (PostError t), Did (Alert (createAlertText U Undefined t Undefined))]\<rparr>"
| MetadataEmpty:
    "stage U P s f \<lparr>this_state = s, pending = None,
       log = posted U P f @ [Got (PostSuccess []), Threw TypeError]\<rparr>"
| MetadataCreated:
    "stage U P s f \<lparr>this_state = s, pending = Some (ReaderOnload f i), log = reading U P f i ids\<rparr>"
| ContentUploading:
    "stage U P s f \<lparr>this_state = s, pending = Some PutCallbacks, log = putting U P f i ids b\<rparr>"
| Completed:
    "stage U P s f \<lparr>this_state = s, pending = None,
       log = putting U P f i ids b @ [Got PutSuccess, Did ReloadWorksheet]\<rparr>"
| Failed:
    "stage U P s f \<lparr>this_state = s, pending = None,
       log = putting U P f i ids b @ [Got (PutError t),
         Did (Alert (createAlertText U Undefined t (Str ''refresh and try again.'')))]\<rparr>"

subsection \<open>Sample inputs\<close>

text \<open>
  Concrete inputs on which the theorems below are evaluated. \<open>sample_utils\<close> is one
  possible set of imported functions, not the repository's.
\<close>

definition bit_text :: "nat \<Rightarrow> string" where
  "bit_text n = (if n = 0 then ''0'' else ''1'')"

definition sample_utils :: "string imported" where
  "sample_utils =
     \<lparr>createDefaultBundleName = takeWhile (\<lambda>c. c \<noteq> CHR ''.''),
      pathIsArchive = (\<lambda>n. drop (length n - 4) n = ''.zip''),
      getArchiveExt = (\<lambda>n. drop (length n - 4) n),
      getDefaultBundleMetadata = (\<lambda>n. n),
      createAlertText = (\<lambda>u t sol. (case u of Str x \<Rightarrow> x | _ \<Rightarrow> ''undefined'') @ '': '' @ t),
      JSON_stringify = (\<lambda>m. m),
      param = (\<lambda>q. ''finalize='' @ bit_text (finalize q) @ ''&filename='' @ filename q
                   @ ''&unpack='' @ bit_text (unpack q))\<rparr>"

definition sample_props :: props where
  "sample_props = \<lparr>worksheetUUID = ''0x7'', after_sort_key = ''3''\<rparr>"

definition sample_state :: state where
  "sample_state =
     \<lparr>url = Some ''0x9'', name = ''run'', description = ''first'', tags = [''a'', ''b'', ''c'']\<rparr>"

definition sample_file :: File where
  "sample_file = \<lparr>file_name = ''data.zip''\<rparr>"

definition sample_events :: "event list" where
  "sample_events = [PostSuccess [''0x1''], ReaderLoad [1, 2], PutSuccess]"

section \<open>Properties\<close>

subsection \<open>The invariant of an attempt\<close>

lemmas flow_defs = upload_attempt_def uploadFile_def start_def perform_def deliver_def
  post_success_def post_error_def reader_onload_def put_success_def put_error_def

lemmas log_defs = posted_def reading_def putting_def post_settings_def put_settings_def

lemma this_url: "get_property this_object ''url'' = Undefined"
  by (simp add: get_property_def this_object_def)

lemma reader_url: "get_property reader_object ''url'' = Undefined"
  by (simp add: get_property_def reader_object_def)

lemma stage_uploadFile: "stage U P s f (uploadFile U P (Some f) (start s))"
  using stage.MetadataRequested [of U P s f]
  by (simp add: uploadFile_def start_def perform_def posted_def)

lemma deliver_idle: "pending w = None \<Longrightarrow> deliver U ev w = w"
  by (simp add: deliver_def)

lemma stage_deliver:
  assumes "stage U P s f w"
  shows "stage U P s f (deliver U ev w)"
  using assms
proof cases
  case MetadataRequested
  show ?thesis
  proof (cases ev)
    case (PostSuccess ids)
    then show ?thesis
      using MetadataRequested stage.MetadataEmpty [of U P s f] stage.MetadataCreated [of U P s f]
      by (cases ids) (simp_all add: deliver_def post_success_def perform_def reading_def)
  next
    case (PostError t)
    then show ?thesis
      using MetadataRequested stage.MetadataFailed [of U P s f t]
      by (simp add: deliver_def post_error_def perform_def this_url)
  qed (use MetadataRequested assms in \<open>simp_all add: deliver_def\<close>)
next
  case (MetadataCreated i ids)
  show ?thesis
  proof (cases ev)
    case (ReaderLoad b)
    then show ?thesis
      using MetadataCreated stage.ContentUploading [of U P s f i ids b]
      by (simp add: deliver_def reader_onload_def perform_def putting_def)
  qed (use MetadataCreated assms in \<open>simp_all add: deliver_def\<close>)
next
  case (ContentUploading i ids b)
  show ?thesis
  proof (cases ev)
    case PutSuccess
    then show ?thesis
      using ContentUploading stage.Completed [of U P s f i ids b]
      by (simp add: deliver_def put_success_def perform_def)
  next
    case (PutError t)
    then show ?thesis
      using ContentUploading stage.Failed [of U P s f i ids b t]
      by (simp add: deliver_def put_error_def perform_def reader_url)
  qed (use ContentUploading assms in \<open>simp_all add: deliver_def\<close>)
qed (use assms in \<open>simp_all add: deliver_idle\<close>)

lemma stage_run: "stage U P s f w \<Longrightarrow> stage U P s f (run U evs w)"
  by (induction evs arbitrary: w) (simp_all add: stage_deliver)

lemma stage_attempt: "stage U P s f (upload_attempt U P s (Some f) evs)"
  by (simp add: upload_attempt_def stage_run stage_uploadFile)

lemma run_idle: "pending w = None \<Longrightarrow> run U evs w = w"
  by (induction evs) (simp_all add: deliver_idle)

lemma attempt_no_file: "upload_attempt U P s None evs = start s"
  by (simp add: upload_attempt_def uploadFile_def run_idle start_def)

lemma stage_puts:
  assumes "stage U P s f w"
  shows "filter is_put (log w) = []
         \<or> (\<exists>i ids b. filter is_put (log w) = [Did (Ajax (put_settings U f i b))]
              \<and> takeWhile (\<lambda>x. \<not> is_put x) (log w) =
                  [Did (Ajax (post_settings U P f)), Got (PostSuccess (i # ids)),
                   Did (ReadAsArrayBuffer f), Got (ReaderLoad b)])"
  using assms by cases (simp_all add: log_defs)

lemma log_decompose:
  assumes "xs = before @ a # rest" and "Q a" and "filter Q xs = [y]"
  shows "a = y \<and> before = takeWhile (\<lambda>x. \<not> Q x) xs"
proof -
  have "filter Q before @ a # filter Q rest = [y]"
    using assms by simp
  then have "filter Q before = []" and "a = y"
    by (simp_all add: append_eq_Cons_conv)
  then have "\<forall>x\<in>set before. \<not> Q x"
    by (simp add: filter_empty_conv)
  then have "takeWhile (\<lambda>x. \<not> Q x) xs = before"
    using assms(1,2) by (simp add: takeWhile_append2)
  with \<open>a = y\<close> show ?thesis by simp
qed

subsection \<open>Query parameters\<close>

text \<open>
  C1: for every filename, the content-upload request carries the serialised query
  parameters \<^verbatim>\<open>finalize = 1\<close>, \<^verbatim>\<open>filename\<close> = the default bundle name, with the
  archive extension appended exactly when the filename is an archive, and
  \<^verbatim>\<open>unpack\<close> = 1 for an archive and 0 otherwise.
\<close>

theorem query_params_of_upload:
  "getQueryParams U fname =
     param U \<lparr>finalize = 1,
              filename = (if pathIsArchive U fname
                          then createDefaultBundleName U fname @ getArchiveExt U fname
                          else createDefaultBundleName U fname),
              unpack = (if pathIsArchive U fname then 1 else 0)\<rparr>
   \<and> req_url (put_settings U f bundleUuid b) =
       ''/rest/bundles/'' @ bundleUuid @ ''/contents/blob/?'' @ getQueryParams U (file_name f)"
  by (simp add: getQueryParams_def queryParams_def put_settings_def)

text \<open>On \<^verbatim>\<open>data.zip\<close> and \<^verbatim>\<open>notes.txt\<close>, with the sample functions.\<close>

theorem query_params_of_upload_witness:
  "getQueryParams sample_utils ''data.zip'' = ''finalize=1&filename=data.zip&unpack=1''
   \<and> getQueryParams sample_utils ''notes.txt'' = ''finalize=1&filename=notes&unpack=0''"
  using query_params_of_upload [of sample_utils "''data.zip''" sample_file "''0x1''" "[]"]
    query_params_of_upload [of sample_utils "''notes.txt''" sample_file "''0x1''" "[]"]
  by (simp add: sample_utils_def bit_text_def)

subsection \<open>Order of the two requests\<close>

text \<open>
  C2: in every upload attempt, whatever the browser delivers and in whatever order, a PUT
  in the log has exactly this history before it: the POST was sent, its success callback
  ran with a bundle id, the file read was started from that callback and the read
  completed. The PUT is never issued before the POST has succeeded.
\<close>

theorem put_only_after_post_success:
  assumes "log (upload_attempt U P s file evs) = before @ a # rest" and "is_put a"
  shows "\<exists>f i ids b. file = Some f
           \<and> before = [Did (Ajax (post_settings U P f)), Got (PostSuccess (i # ids)),
                       Did (ReadAsArrayBuffer f), Got (ReaderLoad b)]
           \<and> a = Did (Ajax (put_settings U f i b))"
proof (cases "file")
  case None
  then show ?thesis
    using assms by (simp add: attempt_no_file start_def)
next
  case (Some f)
  let ?L = "log (upload_attempt U P s file evs)"
  have "filter is_put ?L \<noteq> []"
    using assms by simp
  with stage_puts [OF stage_attempt, of U P s f evs] Some
  obtain i ids b where puts: "filter is_put ?L = [Did (Ajax (put_settings U f i b))]"
    and pre: "takeWhile (\<lambda>x. \<not> is_put x) ?L =
                [Did (Ajax (post_settings U P f)), Got (PostSuccess (i # ids)),
                 Did (ReadAsArrayBuffer f), Got (ReaderLoad b)]"
    by auto
  from log_decompose [OF assms puts] pre Some show ?thesis
    by simp
qed

text \<open>A successful attempt on the sample file: the PUT is the fifth entry of the log.\<close>

theorem put_only_after_post_success_witness:
  "log (upload_attempt sample_utils sample_props sample_state (Some sample_file) sample_events)
     = [Did (Ajax (post_settings sample_utils sample_props sample_file)),
        Got (PostSuccess [''0x1'']), Did (ReadAsArrayBuffer sample_file), Got (ReaderLoad [1, 2])]
       @ Did (Ajax (put_settings sample_utils sample_file ''0x1'' [1, 2]))
       # [Got PutSuccess, Did ReloadWorksheet]
   \<and> is_put (Did (Ajax (put_settings sample_utils sample_file ''0x1'' [1, 2])))
   \<and> (\<exists>f i ids b. Some sample_file = Some f
         \<and> [Did (Ajax (post_settings sample_utils sample_props sample_file)),
            Got (PostSuccess [''0x1'']), Did (ReadAsArrayBuffer sample_file), Got (ReaderLoad [1, 2])]
           = [Did (Ajax (post_settings sample_utils sample_props f)), Got (PostSuccess (i # ids)),
              Did (ReadAsArrayBuffer f), Got (ReaderLoad b)]
         \<and> Did (Ajax (put_settings sample_utils sample_file ''0x1'' [1, 2]))
           = Did (Ajax (put_settings sample_utils f i b)))"
proof -
  have h1: "log (upload_attempt sample_utils sample_props sample_state (Some sample_file) sample_events)
     = [Did (Ajax (post_settings sample_utils sample_props sample_file)),
        Got (PostSuccess [''0x1'']), Did (ReadAsArrayBuffer sample_file), Got (ReaderLoad [1, 2])]
       @ Did (Ajax (put_settings sample_utils sample_file ''0x1'' [1, 2]))
       # [Got PutSuccess, Did ReloadWorksheet]"
    by (simp add: flow_defs sample_events_def)
  have h2: "is_put (Did (Ajax (put_settings sample_utils sample_file ''0x1'' [1, 2])))"
    by (simp add: put_settings_def)
  from put_only_after_post_success [OF h1 h2] h1 h2 show ?thesis
    by simp
qed

subsection \<open>Outcome of the content upload\<close>

lemma stage_reloads:
  assumes "stage U P s f w"
  shows "count_list (log w) (Did ReloadWorksheet) = count_list (log w) (Got PutSuccess)
         \<and> count_list (log w) (Got PutSuccess) \<le> 1"
  using assms by cases (simp_all add: log_defs)

lemma stage_put_failed:
  assumes "stage U P s f w" and "Got (PutError t) \<in> set (log w)"
  shows "length (filter is_alert (log w)) = 1 \<and> Did ReloadWorksheet \<notin> set (log w)"
  using assms by cases (auto simp add: log_defs)

text \<open>
  C3: in every upload attempt, \<^verbatim>\<open>reloadWorksheet()\<close> is called as many times as the
  PUT's success callback ran, which is at most once; and when the PUT's error callback
  ran, the log holds exactly one alert and no call of \<^verbatim>\<open>reloadWorksheet()\<close>.
\<close>

theorem reload_iff_put_success:
  "count_list (log (upload_attempt U P s file evs)) (Did ReloadWorksheet)
     = count_list (log (upload_attempt U P s file evs)) (Got PutSuccess)
   \<and> count_list (log (upload_attempt U P s file evs)) (Got PutSuccess) \<le> 1
   \<and> (\<forall>t. Got (PutError t) \<in> set (log (upload_attempt U P s file evs)) \<longrightarrow>
          length (filter is_alert (log (upload_attempt U P s file evs))) = 1
          \<and> Did ReloadWorksheet \<notin> set (log (upload_attempt U P s file evs)))"
proof (cases "file")
  case None
  then show ?thesis
    by (simp add: attempt_no_file start_def)
next
  case (Some f)
  then show ?thesis
    using stage_reloads [OF stage_attempt, of U P s f evs]
      stage_put_failed [OF stage_attempt, of _ U P s f evs]
    by blast
qed

text \<open>A failed PUT and a successful one on the sample file.\<close>

theorem reload_iff_put_success_witness:
  "Got (PutError ''boom'') \<in> set (log (upload_attempt sample_utils sample_props sample_state
       (Some sample_file) [PostSuccess [''0x1''], ReaderLoad [1, 2], PutError ''boom'']))
   \<and> length (filter is_alert (log (upload_attempt sample_utils sample_props sample_state
       (Some sample_file) [PostSuccess [''0x1''], ReaderLoad [1, 2], PutError ''boom'']))) = 1
   \<and> Did ReloadWorksheet \<notin> set (log (upload_attempt sample_utils sample_props sample_state
       (Some sample_file) [PostSuccess [''0x1''], ReaderLoad [1, 2], PutError ''boom'']))
   \<and> count_list (log (upload_attempt sample_utils sample_props sample_state
       (Some sample_file) sample_events)) (Did ReloadWorksheet) = 1"
proof -
  have h: "Got (PutError ''boom'') \<in> set (log (upload_attempt sample_utils sample_props sample_state
       (Some sample_file) [PostSuccess [''0x1''], ReaderLoad [1, 2], PutError ''boom'']))"
    by (simp add: flow_defs)
  have k: "count_list (log (upload_attempt sample_utils sample_props sample_state
       (Some sample_file) sample_events)) (Got PutSuccess) = 1"
    by (simp add: flow_defs sample_events_def)
  note failed = reload_iff_put_success [of sample_utils sample_props sample_state
      "Some sample_file" "[PostSuccess [''0x1''], ReaderLoad [1, 2], PutError ''boom'']",
      THEN conjunct2, THEN conjunct2, rule_format, OF h]
  note succeeded = reload_iff_put_success [of sample_utils sample_props sample_state
      "Some sample_file" sample_events, THEN conjunct1]
  from h k failed succeeded show ?thesis by simp
qed

subsection \<open>Failure of the metadata creation\<close>

lemma stage_post_failed:
  assumes "stage U P s f w" and "Got (PostError t) \<in> set (log w)"
  shows "length (filter is_alert (log w)) = 1 \<and> filter is_put (log w) = []"
  using assms by cases (auto simp add: log_defs)

text \<open>
  C4: in every upload attempt in which the POST's error callback ran, the log holds
  exactly one alert and no PUT request, whatever is delivered afterwards.
\<close>

theorem post_failure_alerts_once:
  assumes "Got (PostError t) \<in> set (log (upload_attempt U P s file evs))"
  shows "length (filter is_alert (log (upload_attempt U P s file evs))) = 1
         \<and> filter is_put (log (upload_attempt U P s file evs)) = []"
proof (cases "file")
  case None
  then show ?thesis
    using assms by (simp add: attempt_no_file start_def)
next
  case (Some f)
  then show ?thesis
    using assms stage_post_failed [OF stage_attempt, of t U P s f evs] by simp
qed

text \<open>The POST fails; the events of a successful upload that follow change nothing.\<close>

theorem post_failure_alerts_once_witness:
  "Got (PostError ''boom'') \<in> set (log (upload_attempt sample_utils sample_props sample_state
       (Some sample_file) (PostError ''boom'' # sample_events)))
   \<and> length (filter is_alert (log (upload_attempt sample_utils sample_props sample_state
       (Some sample_file) (PostError ''boom'' # sample_events)))) = 1
   \<and> filter is_put (log (upload_attempt sample_utils sample_props sample_state
       (Some sample_file) (PostError ''boom'' # sample_events))) = []"
proof -
  have h: "Got (PostError ''boom'') \<in> set (log (upload_attempt sample_utils sample_props sample_state
       (Some sample_file) (PostError ''boom'' # sample_events)))"
    by (simp add: flow_defs sample_events_def)
  from h post_failure_alerts_once [OF h] show ?thesis by simp
qed

subsection \<open>Text of the alerts\<close>

text \<open>
  C5 asks that the alert of a failed request contain the URL of that request. The
  handlers pass \<^verbatim>\<open>this.url\<close> (line 219) and \<^verbatim>\<open>reader.url\<close> (line 208) as the URL,
  and neither the component nor the reader has such a property: for every file, every
  worksheet and every response text, \<^verbatim>\<open>createAlertText\<close> receives \<^verbatim>\<open>undefined\<close>
  in place of the URL, and the alert is the same whatever URL the request had. The
  response text is passed on as it is.
\<close>

theorem alert_url_is_undefined:
  "log (upload_attempt U P s (Some f) [PostError t])
     = [Did (Ajax (post_settings U P f)), Got (PostError t),
        Did (Alert (createAlertText U Undefined t Undefined))]
   \<and> log (upload_attempt U P s (Some f) [PostSuccess (i # ids), ReaderLoad b, PutError t])
     = [Did (Ajax (post_settings U P f)), Got (PostSuccess (i # ids)),
        Did (ReadAsArrayBuffer f), Got (ReaderLoad b), Did (Ajax (put_settings U f i b)),
        Got (PutError t),
        Did (Alert (createAlertText U Undefined t (Str ''refresh and try again.'')))]"
  by (simp add: flow_defs this_url reader_url)

text \<open>
  With the sample functions the POST goes to
  \<^verbatim>\<open>/rest/bundles?worksheet=0x7&after_sort_key=3\<close> and the alert reads
  \<^verbatim>\<open>undefined: boom\<close>.
\<close>

theorem alert_url_is_undefined_witness:
  "log (upload_attempt sample_utils sample_props sample_state (Some sample_file)
         [PostError ''boom''])
     = [Did (Ajax \<lparr>req_url = ''/rest/bundles?worksheet=0x7&after_sort_key=3'',
                   req_type = POST, req_contentType = ''application/json'',
                   req_data = Text ''data.zip'', req_processData = True\<rparr>),
        Got (PostError ''boom''),
        Did (Alert ''undefined: boom'')]"
  using alert_url_is_undefined [of sample_utils sample_props sample_state sample_file
      "''boom''" "''0x1''" "[]" "[]"]
  by (simp add: post_settings_def sample_utils_def sample_props_def sample_file_def)

subsection \<open>The Clear button\<close>

text \<open>
  C6 as stated, that Clear resets \<^verbatim>\<open>url\<close> as well, fails. Type \<^verbatim>\<open>0x9\<close> into
  the URL input of a fresh component and press Clear: the state is not the default
  tuple, with the URL empty or absent; the URL is still \<^verbatim>\<open>0x9\<close>.
\<close>

theorem clear_resets_url_counterexample:
  "clear_onClick (url_onValueChange ''0x9'' initial_state)
     \<noteq> \<lparr>url = Some '''', name = ''untitled-upload'', description = '''', tags = []\<rparr>
   \<and> clear_onClick (url_onValueChange ''0x9'' initial_state)
     \<noteq> \<lparr>url = None, name = ''untitled-upload'', description = '''', tags = []\<rparr>
   \<and> clear_onClick (url_onValueChange ''0x9'' initial_state)
     = \<lparr>url = Some ''0x9'', name = ''untitled-upload'', description = '''', tags = []\<rparr>"
  by (simp add: clear_onClick_def url_onValueChange_def initial_state_def setState_def
      defaultConfig_def no_change_def)

text \<open>
  C6, amended: from every state, Clear sets \<^verbatim>\<open>name\<close>, \<^verbatim>\<open>description\<close> and
  \<^verbatim>\<open>tags\<close> to \<^verbatim>\<open>untitled-upload\<close>, the empty string and the empty list, and
  leaves \<^verbatim>\<open>url\<close> as it was.
\<close>

theorem clear_resets_config:
  "clear_onClick s =
     \<lparr>url = url s, name = ''untitled-upload'', description = '''', tags = []\<rparr>"
  by (simp add: clear_onClick_def setState_def defaultConfig_def no_change_def)

theorem clear_resets_config_witness:
  "clear_onClick sample_state =
     \<lparr>url = Some ''0x9'', name = ''untitled-upload'', description = '''', tags = []\<rparr>"
  using clear_resets_config [of sample_state]
  by (simp add: sample_state_def)

subsection \<open>No file\<close>

text \<open>
  C7: \<^verbatim>\<open>uploadFile\<close> without a file returns the world as it was: nothing is sent,
  no callback is registered and the state is unchanged; no later event has any effect.
\<close>

theorem upload_without_file:
  "uploadFile U P None w = w
   \<and> upload_attempt U P s None evs = \<lparr>this_state = s, pending = None, log = []\<rparr>"
  by (simp add: uploadFile_def attempt_no_file start_def)

theorem upload_without_file_witness:
  "upload_attempt sample_utils sample_props sample_state None sample_events
     = \<lparr>this_state = sample_state, pending = None, log = []\<rparr>"
  using upload_without_file [of sample_utils sample_props "start sample_state"
      sample_state sample_events]
  by simp

subsection \<open>Tags\<close>

lemma slice_prefix: "0 \<le> idx \<Longrightarrow> slice xs 0 (Some idx) = take (nat idx) xs"
  by (simp add: slice_def relative_index_def Let_def min_def)

lemma slice_suffix: "0 \<le> k \<Longrightarrow> slice xs k None = drop (nat k) xs"
  by (simp add: slice_def relative_index_def Let_def min_def)

lemma tags_onValueDelete:
  "0 \<le> idx \<Longrightarrow>
     tags (onValueDelete v idx s) = take (nat idx) (tags s) @ drop (Suc (nat idx)) (tags s)"
  by (simp add: onValueDelete_def setState_def no_change_def slice_prefix slice_suffix
      nat_add_distrib)

lemma tags_onValueAdd: "tags (onValueAdd v s) = tags s @ [v]"
  by (simp add: onValueAdd_def setState_def no_change_def)

lemma onValueAdd_frame:
  "url (onValueAdd v s) = url s \<and> name (onValueAdd v s) = name s
   \<and> description (onValueAdd v s) = description s"
  by (simp add: onValueAdd_def setState_def no_change_def)

lemma onValueDelete_frame:
  "url (onValueDelete v idx s) = url s \<and> name (onValueDelete v idx s) = name s
   \<and> description (onValueDelete v idx s) = description s"
  by (simp add: onValueDelete_def setState_def no_change_def)

text \<open>
  C8: for every state and every tag, the added tag is at the index that was the length
  of the list, and deleting at that index gives back the tag list, in its order, and
  with it the whole state.
\<close>

theorem add_then_delete:
  "tags (onValueAdd v s) ! length (tags s) = v
   \<and> tags (onValueDelete v (int (length (tags s))) (onValueAdd v s)) = tags s
   \<and> onValueDelete v (int (length (tags s))) (onValueAdd v s) = s"
proof -
  have t: "tags (onValueDelete v (int (length (tags s))) (onValueAdd v s)) = tags s"
    by (simp add: tags_onValueDelete tags_onValueAdd)
  have "onValueDelete v (int (length (tags s))) (onValueAdd v s) = s"
    using t onValueDelete_frame [of v "int (length (tags s))" "onValueAdd v s"]
      onValueAdd_frame [of v s]
    by (intro state.equality) simp_all
  with t show ?thesis
    by (simp add: tags_onValueAdd)
qed

theorem add_then_delete_witness:
  "onValueDelete ''x'' 3 (onValueAdd ''x'' sample_state) = sample_state
   \<and> tags (onValueAdd ''x'' sample_state) = [''a'', ''b'', ''c'', ''x'']"
  using add_then_delete [of "''x''" sample_state]
  by (simp add: sample_state_def tags_onValueAdd)

text \<open>
  C10: deleting at an index at or beyond the length of the tag list leaves the list as
  it is, and deleting at an index inside the list removes the element at that index and
  no other: the list is the elements before it followed by the elements after it, one
  element shorter.
\<close>

theorem delete_total:
  "(int (length (tags s)) \<le> idx \<longrightarrow> tags (onValueDelete v idx s) = tags s)
   \<and> (0 \<le> idx \<and> idx < int (length (tags s)) \<longrightarrow>
        tags (onValueDelete v idx s) = take (nat idx) (tags s) @ drop (Suc (nat idx)) (tags s)
        \<and> length (tags (onValueDelete v idx s)) = length (tags s) - 1)"
proof (intro conjI impI)
  assume "int (length (tags s)) \<le> idx"
  then have "0 \<le> idx" and "length (tags s) \<le> nat idx"
    by simp_all
  then show "tags (onValueDelete v idx s) = tags s"
    by (simp add: tags_onValueDelete)
next
  assume "0 \<le> idx \<and> idx < int (length (tags s))"
  then show "tags (onValueDelete v idx s)
      = take (nat idx) (tags s) @ drop (Suc (nat idx)) (tags s)"
    by (simp add: tags_onValueDelete)
next
  assume a: "0 \<le> idx \<and> idx < int (length (tags s))"
  then have "nat idx < length (tags s)" by (simp add: nat_less_iff)
  then show "length (tags (onValueDelete v idx s)) = length (tags s) - 1"
    using a by (simp add: tags_onValueDelete)
qed

text \<open>On the tags a, b, c: index 5 deletes nothing, index 1 deletes b.\<close>

theorem delete_total_witness:
  "int (length (tags sample_state)) \<le> 5
   \<and> tags (onValueDelete ''b'' 5 sample_state) = [''a'', ''b'', ''c'']
   \<and> 0 \<le> (1::int) \<and> 1 < int (length (tags sample_state))
   \<and> tags (onValueDelete ''b'' 1 sample_state) = [''a'', ''c'']"
proof -
  have h5: "int (length (tags sample_state)) \<le> 5"
    by (simp add: sample_state_def)
  have h1: "0 \<le> (1::int) \<and> 1 < int (length (tags sample_state))"
    by (simp add: sample_state_def)
  note beyond = delete_total [of sample_state 5 "''b''", THEN conjunct1, rule_format, OF h5]
  note inside = delete_total [of sample_state 1 "''b''", THEN conjunct2, rule_format, OF h1]
  from h5 h1 beyond inside show ?thesis
    by (simp add: sample_state_def)
qed

subsection \<open>The upload leaves the form alone\<close>

lemma stage_state: "stage U P s f w \<Longrightarrow> this_state w = s"
  by (erule stage.cases) simp_all

lemma deliver_state: "this_state (deliver U ev w) = this_state w"
proof (cases "pending w")
  case None
  then show ?thesis by (simp add: deliver_idle)
next
  case (Some cb)
  then show ?thesis
    by (cases cb; cases ev)
      (simp_all add: deliver_def post_success_def post_error_def reader_onload_def
        put_success_def put_error_def perform_def Let_def split: list.splits)
qed

text \<open>
  C9: \<^verbatim>\<open>uploadFile\<close> and each of its callbacks leave the component state as it was,
  so after every upload attempt, successful or failed, \<^verbatim>\<open>name\<close>,
  \<^verbatim>\<open>description\<close>, \<^verbatim>\<open>tags\<close> and \<^verbatim>\<open>url\<close> are what they were before it.
\<close>

theorem upload_keeps_state:
  "this_state (uploadFile U P file w) = this_state w
   \<and> this_state (deliver U ev w) = this_state w
   \<and> this_state (upload_attempt U P s file evs) = s"
proof -
  have "this_state (upload_attempt U P s file evs) = s"
  proof (cases "file")
    case None
    then show ?thesis by (simp add: attempt_no_file start_def)
  next
    case (Some f)
    then show ?thesis using stage_state [OF stage_attempt, of U P s f evs] by simp
  qed
  then show ?thesis
    by (simp add: deliver_state uploadFile_def perform_def split: option.splits)
qed

theorem upload_keeps_state_witness:
  "this_state (upload_attempt sample_utils sample_props sample_state (Some sample_file)
     sample_events) = sample_state"
  using upload_keeps_state [of sample_utils sample_props "Some sample_file" "start sample_state"
      PutSuccess sample_state sample_events]
  by simp

end
